theory Spec2Isabelle
  imports Main
begin

section \<open>Dependency URL checker: strings\<close>

text \<open>
  The script \<^verbatim>\<open>contrib/check_dependency_urls.py\<close> works on Python strings. They are
  modelled as \<^typ>\<open>string\<close>, one \<^typ>\<open>char\<close> per character; the character classes
  of the regular expressions are the ASCII ones (a character above 127 is neither
  a word character nor white space).
\<close>

definition startswith :: "string \<Rightarrow> string \<Rightarrow> bool" where
  \<comment> \<open>\<^verbatim>\<open>s.startswith(p)\<close>\<close>
  "startswith s p = (take (length p) s = p)"

definition endswith :: "string \<Rightarrow> string \<Rightarrow> bool" where
  \<comment> \<open>\<^verbatim>\<open>s.endswith(p)\<close>\<close>
  "endswith s p = (length p \<le> length s \<and> drop (length s - length p) s = p)"

definition rstrip_chr :: "char \<Rightarrow> string \<Rightarrow> string" where
  \<comment> \<open>\<^verbatim>\<open>s.rstrip(c)\<close> for a one-character argument: every trailing \<open>c\<close> goes\<close>
  "rstrip_chr c s = rev (dropWhile (\<lambda>x. x = c) (rev s))"

definition lstrip_chr :: "char \<Rightarrow> string \<Rightarrow> string" where
  \<comment> \<open>\<^verbatim>\<open>s.lstrip(c)\<close> for a one-character argument: every leading \<open>c\<close> goes\<close>
  "lstrip_chr c s = dropWhile (\<lambda>x. x = c) s"

fun str_nat :: "nat \<Rightarrow> string" where
  "str_nat n =
     (if n < 10 then [''0123456789'' ! n]
      else str_nat (n div 10) @ [''0123456789'' ! (n mod 10)])"

declare str_nat.simps [simp del]

definition str_int :: "int \<Rightarrow> string" where
  \<comment> \<open>\<^verbatim>\<open>str(i)\<close>, the decimal form used by the f-string\<close>
  "str_int i = (if i < 0 then CHR ''-'' # str_nat (nat (- i)) else str_nat (nat i))"

section \<open>URL builder\<close>

definition build_url :: "string \<Rightarrow> string \<Rightarrow> string" where
  "build_url download_path file_name =
     (let download_path' = rstrip_chr CHR ''/'' download_path;
          file_name' = lstrip_chr CHR ''/'' file_name
      in if endswith download_path' ''/'' then download_path' @ file_name'
         else download_path' @ ''/'' @ file_name')"

text \<open>The reading of the specification: one slash off each side, then one slash between.\<close>

definition strip_one_trailing_slash :: "string \<Rightarrow> string" where
  "strip_one_trailing_slash s = (if endswith s ''/'' then butlast s else s)"

definition strip_one_leading_slash :: "string \<Rightarrow> string" where
  "strip_one_leading_slash s = (if startswith s ''/'' then tl s else s)"

definition build_url_spec :: "string \<Rightarrow> string \<Rightarrow> string" where
  "build_url_spec basePath fileName =
     strip_one_trailing_slash basePath @ ''/'' @ strip_one_leading_slash fileName"

section \<open>Availability checker\<close>

text \<open>
  What \<^verbatim>\<open>requests.head\<close> does is the environment's answer: a response with a status
  code, or one of the exceptions the function catches, in the order of its handlers.
\<close>

datatype probe_outcome =
    Response int
  | Timeout
  | ConnectionError
  | TooManyRedirects
  | RequestException string

definition check_url :: "(string \<Rightarrow> probe_outcome) \<Rightarrow> string \<Rightarrow> string option \<Rightarrow> bool \<times> int \<times> string" where
  "check_url head url package_name =
     (case head url of
        Response status_code \<Rightarrow>
          if status_code = 200 then (True, status_code, ''Ok'')
          else if status_code = 404 then (False, status_code, ''Not Found'')
          else if status_code = 418 \<and> package_name = Some ''fontconfig''
            then (True, status_code, ''Ok (418 - special case)'')
          else (False, status_code, ''HTTP '' @ str_int status_code)
      | Timeout \<Rightarrow> (False, 0, ''Timeout'')
      | ConnectionError \<Rightarrow> (False, 0, ''Connection Error'')
      | TooManyRedirects \<Rightarrow> (False, 0, ''Too Many Redirects'')
      | RequestException e \<Rightarrow> (False, 0, ''Error: '' @ e))"

section \<open>Character classes and string operations of the resolver\<close>

definition is_space :: "char \<Rightarrow> bool" where
  \<comment> \<open>the white space of \<^verbatim>\<open>str.strip()\<close> and of \<^verbatim>\<open>\s\<close> below 128\<close>
  "is_space c =
     (c = CHR 0x09 \<or> c = CHR 0x0A \<or> c = CHR 0x0B \<or> c = CHR 0x0C \<or> c = CHR 0x0D
      \<or> c = CHR 0x1C \<or> c = CHR 0x1D \<or> c = CHR 0x1E \<or> c = CHR 0x1F \<or> c = CHR '' '')"

definition is_ident_start :: "char \<Rightarrow> bool" where
  \<comment> \<open>the class \<^verbatim>\<open>[a-zA-Z_]\<close>\<close>
  "is_ident_start c =
     (let n = (of_char c :: nat) in (97 \<le> n \<and> n \<le> 122) \<or> (65 \<le> n \<and> n \<le> 90) \<or> n = 95)"

definition is_word :: "char \<Rightarrow> bool" where
  \<comment> \<open>the class \<^verbatim>\<open>[a-zA-Z0-9_]\<close>, which is \<^verbatim>\<open>\w\<close> on ASCII\<close>
  "is_word c =
     (let n = (of_char c :: nat)
      in (97 \<le> n \<and> n \<le> 122) \<or> (65 \<le> n \<and> n \<le> 90) \<or> (48 \<le> n \<and> n \<le> 57) \<or> n = 95)"

definition strip :: "string \<Rightarrow> string" where
  \<comment> \<open>\<^verbatim>\<open>s.strip()\<close>\<close>
  "strip s = rev (dropWhile is_space (rev (dropWhile is_space s)))"

fun contains :: "string \<Rightarrow> string \<Rightarrow> bool" where
  \<comment> \<open>\<^verbatim>\<open>sub in s\<close>\<close>
  "contains sub [] = (sub = [])"
| "contains sub (c # cs) = (startswith (c # cs) sub \<or> contains sub cs)"

function py_replace :: "string \<Rightarrow> string \<Rightarrow> string \<Rightarrow> string" where
  \<comment> \<open>\<^verbatim>\<open>s.replace(old, new)\<close>: every occurrence, left to right, without overlap\<close>
  "py_replace old new [] = (if old = [] then new else [])"
| "py_replace old new (c # cs) =
     (if old = [] then new @ c # py_replace old new cs
      else if startswith (c # cs) old then new @ py_replace old new (drop (length old) (c # cs))
      else c # py_replace old new cs)"
  by pat_completeness auto
termination
  by (relation "measure (\<lambda>(old, new, s). length s)") auto

definition join_space :: "string list \<Rightarrow> string" where
  \<comment> \<open>\<^verbatim>\<open>' '.join(xs)\<close>\<close>
  "join_space xs = (case xs of [] \<Rightarrow> [] | y # ys \<Rightarrow> foldl (\<lambda>acc x. acc @ '' '' @ x) y ys)"

section \<open>Same-package resolution\<close>

text \<open>
  \<^verbatim>\<open>re.search(r'\$\(([a-zA-Z_][a-zA-Z0-9_]*)_(\w+)\)', result)\<close>. Between \<^verbatim>\<open>$(\<close> and the
  closing parenthesis every character the pattern consumes is a word character, so the
  text between them is the whole run of word characters after \<^verbatim>\<open>$(\<close>. Group 1 is
  greedy: the engine tries the longest group 1 first, so the run is cut at its last
  underscore that leaves both groups non-empty.
\<close>

definition greedy_split :: "string \<Rightarrow> (string \<times> string) option" where
  "greedy_split w =
     (case filter (\<lambda>k. w ! k = CHR ''_'') (rev [1..<length w - 1]) of
        [] \<Rightarrow> None
      | k # _ \<Rightarrow> Some (take k w, drop (Suc k) w))"

definition nested_at :: "string \<Rightarrow> (string \<times> string \<times> string) option" where
  \<comment> \<open>a match at the head of the text: group 1, group 2, group 0\<close>
  "nested_at t =
     (if startswith t ''$('' then
        (let w = takeWhile is_word (drop 2 t); r = dropWhile is_word (drop 2 t)
         in if w \<noteq> [] \<and> is_ident_start (hd w) \<and> startswith r '')'' then
              (case greedy_split w of
                 None \<Rightarrow> None
               | Some (prefix, var_name) \<Rightarrow> Some (prefix, var_name, ''$('' @ w @ '')''))
            else None)
      else None)"

fun search_nested :: "string \<Rightarrow> (string \<times> string \<times> string) option" where
  \<comment> \<open>the leftmost match\<close>
  "search_nested [] = None"
| "search_nested (c # cs) =
     (case nested_at (c # cs) of Some m \<Rightarrow> Some m | None \<Rightarrow> search_nested cs)"

text \<open>\<^verbatim>\<open>re.search(r'\$\(([a-zA-Z_][a-zA-Z0-9_]*)\)', result)\<close>: group 1 and group 0.\<close>

definition var_at :: "string \<Rightarrow> (string \<times> string) option" where
  "var_at t =
     (if startswith t ''$('' then
        (let w = takeWhile is_word (drop 2 t); r = dropWhile is_word (drop 2 t)
         in if w \<noteq> [] \<and> is_ident_start (hd w) \<and> startswith r '')''
            then Some (w, ''$('' @ w @ '')'') else None)
      else None)"

fun search_var :: "string \<Rightarrow> (string \<times> string) option" where
  "search_var [] = None"
| "search_var (c # cs) =
     (case var_at (c # cs) of Some m \<Rightarrow> Some m | None \<Rightarrow> search_var cs)"

text \<open>
  One run of the body of the loop of \<^verbatim>\<open>resolve_variables\<close>: the flag \<open>changed\<close> and
  the new \<open>result\<close>. Both \<^verbatim>\<open>continue\<close> statements are taken with \<open>changed\<close> set, and
  the loop stops where \<open>changed\<close> is unset.
\<close>

definition nested_substitution :: "(string \<rightharpoonup> string) \<Rightarrow> string \<Rightarrow> string \<Rightarrow> string option" where
  "nested_substitution variables package_name result =
     (case search_nested result of
        None \<Rightarrow> None
      | Some (prefix, var_name, group0) \<Rightarrow>
          if prefix = package_name then
            (case variables var_name of
               None \<Rightarrow> None
             | Some v \<Rightarrow> Some (py_replace group0 v result))
          else None)"

definition direct_substitution :: "(string \<rightharpoonup> string) \<Rightarrow> string \<Rightarrow> string \<Rightarrow> string option" where
  "direct_substitution variables package_name result =
     (case search_var result of
        None \<Rightarrow> None
      | Some (var_key, group0) \<Rightarrow>
          if startswith var_key (package_name @ ''_'') then
            (case variables (drop (length package_name + 1) var_key) of
               None \<Rightarrow> None
             | Some v \<Rightarrow> Some (py_replace group0 v result))
          else None)"

definition resolve_body :: "(string \<rightharpoonup> string) \<Rightarrow> string \<Rightarrow> string \<Rightarrow> bool \<times> string" where
  "resolve_body variables package_name old_result =
     (let result = py_replace ''$(package)'' package_name old_result;
          changed = (result \<noteq> old_result)
      in case nested_substitution variables package_name result of
           Some result' \<Rightarrow> (True, result')
         | None \<Rightarrow>
             (case direct_substitution variables package_name result of
                Some result' \<Rightarrow> (True, result')
              | None \<Rightarrow> (changed, result)))"

function resolve_loop :: "(string \<rightharpoonup> string) \<Rightarrow> string \<Rightarrow> nat \<Rightarrow> string \<Rightarrow> string" where
  "resolve_loop variables package_name iteration result =
     (if iteration < 20 then
        (case resolve_body variables package_name result of
           (changed, result') \<Rightarrow>
             if changed then resolve_loop variables package_name (iteration + 1) result'
             else result')
      else result)"
  by pat_completeness auto
termination
  by (relation "measure (\<lambda>(variables, package_name, iteration, result). 20 - iteration)") auto

declare resolve_loop.simps [simp del]

definition resolve_variables :: "string \<Rightarrow> (string \<rightharpoonup> string) \<Rightarrow> string \<Rightarrow> string" where
  "resolve_variables value variables package_name = resolve_loop variables package_name 0 value"

text \<open>The number of times the body of the loop runs, counted along the same recursion.\<close>

function resolve_iterations :: "(string \<rightharpoonup> string) \<Rightarrow> string \<Rightarrow> nat \<Rightarrow> string \<Rightarrow> nat" where
  "resolve_iterations variables package_name iteration result =
     (if iteration < 20 then
        (case resolve_body variables package_name result of
           (changed, result') \<Rightarrow>
             if changed then resolve_iterations variables package_name (iteration + 1) result'
             else iteration + 1)
      else iteration)"
  by pat_completeness auto
termination
  by (relation "measure (\<lambda>(variables, package_name, iteration, result). 20 - iteration)") auto

declare resolve_iterations.simps [simp del]

section \<open>Cross-package resolution\<close>

text \<open>
  The package index is a Python dictionary from package names to variable mappings. The
  order of its keys decides which package is tried first, so it is an association list;
  \<^verbatim>\<open>all_packages[p]\<close> is \<^const>\<open>map_of\<close>, and \<^verbatim>\<open>all_packages.keys()\<close> the first components.
\<close>

type_synonym package_index = "(string \<times> (string \<rightharpoonup> string)) list"

text \<open>
  \<^verbatim>\<open>re.finditer(r'\$\(([^)]+)\)', result)\<close>. At a position the pattern matches when
  \<^verbatim>\<open>$(\<close> is followed by at least one character other than a closing parenthesis and
  then by a closing parenthesis. A match gives group 1 and the length of group 0.
\<close>

definition placeholder_at :: "string \<Rightarrow> (string \<times> nat) option" where
  "placeholder_at t =
     (if startswith t ''$('' then
        (let body = takeWhile (\<lambda>c. c \<noteq> CHR '')'') (drop 2 t);
             r = dropWhile (\<lambda>c. c \<noteq> CHR '')'') (drop 2 t)
         in if body \<noteq> [] \<and> r \<noteq> [] then Some (body, length body + 3) else None)
      else None)"

text \<open>
  The matches from left to right, without overlap: start, end and group 1 of each. The
  first argument counts the characters still covered by the previous match, the second
  is the position of the head of the text.
\<close>

fun finditer_from :: "nat \<Rightarrow> nat \<Rightarrow> string \<Rightarrow> (nat \<times> nat \<times> string) list" where
  "finditer_from skip pos [] = []"
| "finditer_from skip pos (c # cs) =
     (if 0 < skip then finditer_from (skip - 1) (pos + 1) cs
      else (case placeholder_at (c # cs) of
              Some (full_var, n) \<Rightarrow> (pos, pos + n, full_var) # finditer_from (n - 1) (pos + 1) cs
            | None \<Rightarrow> finditer_from 0 (pos + 1) cs))"

definition finditer :: "string \<Rightarrow> (nat \<times> nat \<times> string) list" where
  "finditer s = finditer_from 0 0 s"

text \<open>
  The inner loop over \<^verbatim>\<open>all_packages.keys()\<close>: the value to substitute, from the first
  other package whose name followed by an underscore starts the placeholder and which
  has the rest as a variable. A key always has an entry; the case without one is
  there for totality and goes on to the next key.
\<close>

fun prefix_package_value :: "string \<Rightarrow> string \<Rightarrow> package_index \<Rightarrow> string list \<Rightarrow> string option" where
  "prefix_package_value full_var package_name all_packages [] = None"
| "prefix_package_value full_var package_name all_packages (other_package # keys) =
     (if other_package \<noteq> package_name \<and> startswith full_var (other_package @ ''_'') then
        (case map_of all_packages other_package of
           None \<Rightarrow> prefix_package_value full_var package_name all_packages keys
         | Some other_variables \<Rightarrow>
             (case other_variables (drop (length other_package + 1) full_var) of
                None \<Rightarrow> prefix_package_value full_var package_name all_packages keys
              | Some var_value \<Rightarrow> Some (resolve_variables var_value other_variables other_package)))
      else prefix_package_value full_var package_name all_packages keys)"

definition rsplit1 :: "char \<Rightarrow> string \<Rightarrow> string list" where
  \<comment> \<open>\<^verbatim>\<open>s.rsplit(c, 1)\<close>\<close>
  "rsplit1 c s =
     (if c \<in> set s
      then [rev (tl (dropWhile (\<lambda>x. x \<noteq> c) (rev s))), rev (takeWhile (\<lambda>x. x \<noteq> c) (rev s))]
      else [s])"

definition last_underscore_value :: "string \<Rightarrow> string \<Rightarrow> package_index \<Rightarrow> string option" where
  \<comment> \<open>the fallback: the placeholder cut at its last underscore\<close>
  "last_underscore_value full_var package_name all_packages =
     (case rsplit1 CHR ''_'' full_var of
        [potential_package, var_name] \<Rightarrow>
          if potential_package \<noteq> package_name then
            (case map_of all_packages potential_package of
               None \<Rightarrow> None
             | Some other_variables \<Rightarrow>
                 (case other_variables var_name of
                    None \<Rightarrow> None
                  | Some var_value \<Rightarrow>
                      Some (resolve_variables var_value other_variables potential_package)))
          else None
      | _ \<Rightarrow> None)"

definition substitute_match ::
  "string \<Rightarrow> package_index \<Rightarrow> string \<times> bool \<Rightarrow> nat \<times> nat \<times> string \<Rightarrow> string \<times> bool" where
  \<comment> \<open>the body of the loop over the matches: \<open>result\<close> and \<open>changed\<close> before and after\<close>
  "substitute_match package_name all_packages state m =
     (case state of (result, changed) \<Rightarrow>
      case m of (start, end, full_var) \<Rightarrow>
        (case prefix_package_value full_var package_name all_packages (map fst all_packages) of
           Some var_value \<Rightarrow> (take start result @ var_value @ drop end result, True)
         | None \<Rightarrow>
             (case last_underscore_value full_var package_name all_packages of
                Some var_value \<Rightarrow> (take start result @ var_value @ drop end result, True)
              | None \<Rightarrow> (result, changed))))"

definition cross_body :: "string \<Rightarrow> package_index \<Rightarrow> string \<Rightarrow> string \<times> bool" where
  \<comment> \<open>one round: the matches of the current string, handled from the last to the first\<close>
  "cross_body package_name all_packages result =
     foldl (substitute_match package_name all_packages) (result, False) (rev (finditer result))"

function cross_loop :: "string \<Rightarrow> package_index \<Rightarrow> nat \<Rightarrow> string \<Rightarrow> string" where
  "cross_loop package_name all_packages iteration result =
     (if iteration < 10 then
        (case cross_body package_name all_packages result of
           (result', changed) \<Rightarrow>
             if changed then cross_loop package_name all_packages (iteration + 1) result'
             else result')
      else result)"
  by pat_completeness auto
termination
  by (relation "measure (\<lambda>(package_name, all_packages, iteration, result). 10 - iteration)") auto

declare cross_loop.simps [simp del]

definition resolve_cross_package_variables :: "string \<Rightarrow> string \<Rightarrow> package_index \<Rightarrow> string" where
  "resolve_cross_package_variables value package_name all_packages =
     cross_loop package_name all_packages 0 value"

function cross_iterations :: "string \<Rightarrow> package_index \<Rightarrow> nat \<Rightarrow> string \<Rightarrow> nat" where
  "cross_iterations package_name all_packages iteration result =
     (if iteration < 10 then
        (case cross_body package_name all_packages result of
           (result', changed) \<Rightarrow>
             if changed then cross_iterations package_name all_packages (iteration + 1) result'
             else iteration + 1)
      else iteration)"
  by pat_completeness auto
termination
  by (relation "measure (\<lambda>(package_name, all_packages, iteration, result). 10 - iteration)") auto

declare cross_iterations.simps [simp del]

section \<open>Variable extractor\<close>

text \<open>
  The input of \<^verbatim>\<open>parse_mk_file\<close> is the text of the file as Python's text layer hands
  it over (decoded, line ends translated to \<^verbatim>\<open>\n\<close>). \<^verbatim>\<open>f.readlines()\<close> cuts it after
  every line feed and keeps the line feed.
\<close>

fun readlines :: "string \<Rightarrow> string list" where
  "readlines [] = []"
| "readlines (c # cs) =
     (if c = CHR 0x0A then [c] # readlines cs
      else (case readlines cs of [] \<Rightarrow> [[c]] | l # ls \<Rightarrow> (c # l) # ls))"

definition split1_second :: "char \<Rightarrow> string \<Rightarrow> string" where
  \<comment> \<open>\<^verbatim>\<open>s.split(c, 1)[1]\<close>, used where \<open>c\<close> occurs in \<open>s\<close>: the text after the first \<open>c\<close>\<close>
  "split1_second c s = tl (dropWhile (\<lambda>x. x \<noteq> c) s)"

fun find_package_name :: "string list \<Rightarrow> string option" where
  \<comment> \<open>the first loop over the lines; \<open>None\<close> is Python's \<^verbatim>\<open>None\<close>\<close>
  "find_package_name [] = None"
| "find_package_name (line # lines) =
     (if startswith (strip line) ''package=''
      then Some (strip (split1_second CHR ''='' (strip line)))
      else find_package_name lines)"

text \<open>
  \<^verbatim>\<open>re.match(r'\$\(package\)_(\w+)\s*=\s*(.+)', stripped)\<close>: groups 1 and 2. The name is
  the run of word characters after the prefix; white space may stand on both sides of
  the equals sign. Group 2 starts at the first character after that white space and
  ends before the next line feed; where nothing follows the white space, the engine
  gives the last character of the white space that is not a line feed to group 2.
\<close>

definition match_assignment :: "string \<Rightarrow> (string \<times> string) option" where
  "match_assignment stripped =
     (if startswith stripped ''$(package)_'' then
        (let t = drop 11 stripped;
             name = takeWhile is_word t;
             t2 = dropWhile is_space (dropWhile is_word t)
         in if name \<noteq> [] \<and> startswith t2 ''='' then
              (let ws = takeWhile is_space (tl t2); r = dropWhile is_space (tl t2)
               in if r \<noteq> [] then Some (name, takeWhile (\<lambda>c. c \<noteq> CHR 0x0A) r)
                  else (case filter (\<lambda>c. c \<noteq> CHR 0x0A) ws of
                          [] \<Rightarrow> None
                        | x # xs \<Rightarrow> Some (name, [last (x # xs)])))
            else None)
      else None)"

text \<open>
  \<^verbatim>\<open>re.sub(r'\s+(if|else|endif|ifeq|ifneq).*$', '', s)\<close>. The pattern matches at a
  position where white space, up to its end, is followed by one of the keywords, and the
  rest of that line ends the string (a single final line feed may follow, and stays).
\<close>

definition keyword_at :: "string \<Rightarrow> bool" where
  "keyword_at t =
     (startswith t ''if'' \<or> startswith t ''else'' \<or> startswith t ''endif''
      \<or> startswith t ''ifeq'' \<or> startswith t ''ifneq'')"

definition conditional_suffix_at :: "string \<Rightarrow> string option" where
  \<comment> \<open>a match at the head of the text: what is left of the string after the match\<close>
  "conditional_suffix_at t =
     (let ws = takeWhile is_space t; r = dropWhile is_space t;
          rest = dropWhile (\<lambda>c. c \<noteq> CHR 0x0A) r
      in if ws \<noteq> [] \<and> keyword_at r \<and> (rest = [] \<or> rest = [CHR 0x0A]) then Some rest else None)"

fun remove_conditional :: "string \<Rightarrow> string" where
  "remove_conditional [] = []"
| "remove_conditional (c # cs) =
     (case conditional_suffix_at (c # cs) of
        Some rest \<Rightarrow> rest
      | None \<Rightarrow> c # remove_conditional cs)"

record parse_state =
  st_variables :: "string \<rightharpoonup> string"
  st_current_var :: "string option"
  st_current_value :: "string list"
  st_in_conditional :: bool
  st_conditional_depth :: int

definition save_variable :: "parse_state \<Rightarrow> string \<rightharpoonup> string" where
  \<comment> \<open>\<^verbatim>\<open>if current_var: variables[current_var] = ' '.join(current_value).strip()\<close>\<close>
  "save_variable st =
     (case st_current_var st of
        None \<Rightarrow> st_variables st
      | Some v \<Rightarrow>
          if v = [] then st_variables st
          else (st_variables st)(v \<mapsto> strip (join_space (st_current_value st))))"

definition parse_line :: "parse_state \<Rightarrow> string \<Rightarrow> parse_state" where
  \<comment> \<open>the body of the second loop over the lines\<close>
  "parse_line st line =
     (let stripped = strip line in
      if stripped = [] \<or> startswith stripped ''#'' then st
      else if startswith stripped ''if'' \<or> startswith stripped ''ifeq'' \<or> startswith stripped ''ifneq''
        then st\<lparr>st_in_conditional := True, st_conditional_depth := st_conditional_depth st + 1\<rparr>
      else if startswith stripped ''else'' then st
      else if startswith stripped ''endif''
        then (if st_conditional_depth st - 1 = 0
              then st\<lparr>st_conditional_depth := st_conditional_depth st - 1, st_in_conditional := False\<rparr>
              else st\<lparr>st_conditional_depth := st_conditional_depth st - 1\<rparr>)
      else if startswith stripped ''define '' \<or> startswith stripped ''endef'' then st
      else
        (case match_assignment stripped of
           Some (name, group2) \<Rightarrow>
             st\<lparr>st_variables := save_variable st,
                st_current_var := Some name,
                st_current_value := [remove_conditional (strip group2)]\<rparr>
         | None \<Rightarrow>
             if st_current_var st \<noteq> None \<and> st_current_var st \<noteq> Some [] \<and> stripped \<noteq> []
                \<and> \<not> st_in_conditional st
             then (let clean_line = remove_conditional stripped
                   in if clean_line \<noteq> [] then st\<lparr>st_current_value := st_current_value st @ [clean_line]\<rparr>
                      else st)
             else st))"

definition initial_state :: parse_state where
  "initial_state =
     \<lparr>st_variables = Map.empty, st_current_var = None, st_current_value = [],
      st_in_conditional = False, st_conditional_depth = 0\<rparr>"

definition parse_lines :: "string list \<Rightarrow> string option \<times> (string \<rightharpoonup> string)" where
  "parse_lines lines =
     (case find_package_name lines of
        None \<Rightarrow> (None, Map.empty)
      | Some package_name \<Rightarrow>
          if package_name = [] then (None, Map.empty)
          else (Some package_name, save_variable (foldl parse_line initial_state lines)))"

definition parse_mk_file :: "string \<Rightarrow> string option \<times> (string \<rightharpoonup> string)" where
  "parse_mk_file content = parse_lines (readlines content)"

section \<open>Per-file orchestration\<close>

text \<open>
  The result dictionary is a record; its keys carry the prefix \<open>res_\<close>, and a key the
  source leaves out is \<open>None\<close>. The fields of the extractor's state carry \<open>st_\<close>.
\<close>

datatype status = StatusOk | StatusError | StatusSkip

record check_result =
  res_package :: string
  res_url :: "string option"
  res_status :: status
  res_status_code :: "int option"
  res_message :: string

text \<open>
  Reading the file is the one step of \<^verbatim>\<open>check_dependency_file\<close> that can raise; the
  handler turns the exception into an error result that carries its text.
\<close>

datatype file_read = FileText string | ReadError string

definition choose_file_var :: "string \<Rightarrow> (string \<rightharpoonup> string) \<Rightarrow> string option" where
  \<comment> \<open>the choice of \<open>file_var\<close>; \<open>None\<close> where the function returns the skip result\<close>
  "choose_file_var package_name vars =
     (if package_name = ''zeromq'' \<and> vars ''file_name'' \<noteq> None then Some ''file_name''
      else if vars ''download_file'' \<noteq> None then Some ''download_file''
      else if vars ''file_name'' \<noteq> None then Some ''file_name''
      else None)"

definition resolve_and_check ::
  "string \<Rightarrow> (string \<rightharpoonup> string) \<Rightarrow> string \<Rightarrow> string \<Rightarrow> package_index option
   \<Rightarrow> (string \<Rightarrow> probe_outcome) \<Rightarrow> check_result" where
  \<comment> \<open>the rest of \<^verbatim>\<open>check_dependency_file\<close>, from the comment \<^verbatim>\<open># Resolve variables\<close> on;
     the cross-package pass runs where \<^verbatim>\<open>all_packages\<close> is neither \<^verbatim>\<open>None\<close> nor empty\<close>
  "resolve_and_check package_name vars raw_path raw_file all_packages head =
     (let download_path = resolve_variables raw_path vars package_name;
          file_name = resolve_variables raw_file vars package_name;
          download_path' =
            (case all_packages of
               None \<Rightarrow> download_path
             | Some [] \<Rightarrow> download_path
             | Some (p # ps) \<Rightarrow> resolve_cross_package_variables download_path package_name (p # ps));
          file_name' =
            (case all_packages of
               None \<Rightarrow> file_name
             | Some [] \<Rightarrow> file_name
             | Some (p # ps) \<Rightarrow> resolve_cross_package_variables file_name package_name (p # ps))
      in if contains ''$('' download_path' \<or> contains ''$('' file_name' then
           \<lparr>res_package = package_name, res_url = None, res_status = StatusSkip,
            res_status_code = None,
            res_message = ''Failed to resolve all variables (possible cross-package references)''\<rparr>
         else
           (let url' = build_url download_path' file_name' in
            case check_url head url' (Some package_name) of
              (success, code, msg) \<Rightarrow>
                \<lparr>res_package = package_name, res_url = Some url',
                 res_status = (if success then StatusOk else StatusError),
                 res_status_code = Some code, res_message = msg\<rparr>))"

text \<open>
  \<^verbatim>\<open>variables[file_var]\<close> is a key the choice has just found, so its \<^verbatim>\<open>KeyError\<close> branch
  (caught by the handler like every exception) is never taken.
\<close>

definition check_dependency_file ::
  "string \<Rightarrow> file_read \<Rightarrow> package_index option \<Rightarrow> (string \<Rightarrow> probe_outcome) \<Rightarrow> check_result" where
  "check_dependency_file stem mk_file all_packages head =
     (case mk_file of
        ReadError e \<Rightarrow>
          \<lparr>res_package = stem, res_url = None, res_status = StatusError, res_status_code = None,
           res_message = ''Error processing: '' @ e\<rparr>
      | FileText content \<Rightarrow>
          (case parse_mk_file content of (name, vars) \<Rightarrow>
           case (if name = Some [] then None else name) of
             None \<Rightarrow>
               \<lparr>res_package = stem, res_url = None, res_status = StatusError, res_status_code = None,
                res_message = ''Failed to determine package name''\<rparr>
           | Some package_name \<Rightarrow>
               (case vars ''download_path'' of
                  None \<Rightarrow>
                    \<lparr>res_package = package_name, res_url = None, res_status = StatusSkip,
                     res_status_code = None,
                     res_message = ''Missing required variable (download_path)''\<rparr>
                | Some raw_path \<Rightarrow>
                    (case choose_file_var package_name vars of
                       None \<Rightarrow>
                         \<lparr>res_package = package_name, res_url = None, res_status = StatusSkip,
                          res_status_code = None,
                          res_message = ''Missing required variable (download_file or file_name)''\<rparr>
                     | Some file_var \<Rightarrow>
                         (case vars file_var of
                            None \<Rightarrow>
                              \<lparr>res_package = stem, res_url = None, res_status = StatusError,
                               res_status_code = None,
                               res_message = ''Error processing: '' @ [CHR 0x27] @ file_var @ [CHR 0x27]\<rparr>
                          | Some raw_file \<Rightarrow>
                              resolve_and_check package_name vars raw_path raw_file all_packages head)))))"

section \<open>Properties of the URL builder\<close>

lemma endswith_single: "endswith s [c] \<longleftrightarrow> s \<noteq> [] \<and> last s = c"
proof (cases s rule: rev_cases)
  case Nil
  then show ?thesis by (simp add: endswith_def)
next
  case (snoc ys y)
  then show ?thesis by (simp add: endswith_def)
qed

lemma startswith_single: "startswith s [c] \<longleftrightarrow> s \<noteq> [] \<and> hd s = c"
  by (cases s) (simp_all add: startswith_def)

lemma rstrip_chr_no_trailing: "\<not> endswith (rstrip_chr c s) [c]"
proof (cases "dropWhile (\<lambda>x. x = c) (rev s)")
  case Nil
  then show ?thesis by (simp add: rstrip_chr_def endswith_single)
next
  case (Cons y ys)
  have "hd (dropWhile (\<lambda>x. x = c) (rev s)) \<noteq> c"
    using hd_dropWhile [of "\<lambda>x. x = c" "rev s"] Cons by simp
  with Cons have "y \<noteq> c" by simp
  with Cons show ?thesis by (simp add: rstrip_chr_def endswith_single)
qed

lemma lstrip_chr_no_leading: "\<not> startswith (lstrip_chr c s) [c]"
proof (cases "dropWhile (\<lambda>x. x = c) s")
  case Nil
  then show ?thesis by (simp add: lstrip_chr_def startswith_single)
next
  case (Cons y ys)
  have "hd (dropWhile (\<lambda>x. x = c) s) \<noteq> c"
    using hd_dropWhile [of "\<lambda>x. x = c" s] Cons by simp
  with Cons have "y \<noteq> c" by simp
  with Cons show ?thesis by (simp add: lstrip_chr_def startswith_single)
qed

lemma takeWhile_eq_replicate:
  "takeWhile (\<lambda>x. x = c) xs = replicate (length (takeWhile (\<lambda>x. x = c) xs)) c"
  by (induction xs) simp_all

lemma lstrip_chr_decompose:
  "s = replicate (length s - length (lstrip_chr c s)) c @ lstrip_chr c s"
proof -
  have "length s - length (dropWhile (\<lambda>x. x = c) s) = length (takeWhile (\<lambda>x. x = c) s)"
    using length_takeWhile_le [of "\<lambda>x. x = c" s]
    by (simp add: dropWhile_eq_drop [of "\<lambda>x. x = c" s])
  then have "replicate (length s - length (lstrip_chr c s)) c = takeWhile (\<lambda>x. x = c) s"
    using takeWhile_eq_replicate [of c s] by (simp add: lstrip_chr_def)
  then show ?thesis by (simp add: lstrip_chr_def)
qed

lemma rstrip_chr_decompose:
  "s = rstrip_chr c s @ replicate (length s - length (rstrip_chr c s)) c"
proof -
  have "rev s = replicate (length (rev s) - length (lstrip_chr c (rev s))) c @ lstrip_chr c (rev s)"
    by (rule lstrip_chr_decompose)
  then have "rev (rev s) = rev (replicate (length s - length (lstrip_chr c (rev s))) c @ lstrip_chr c (rev s))"
    by simp
  then show ?thesis by (simp add: rstrip_chr_def lstrip_chr_def)
qed

lemma build_url_join:
  "build_url download_path file_name =
     rstrip_chr CHR ''/'' download_path @ ''/'' @ lstrip_chr CHR ''/'' file_name"
  using rstrip_chr_no_trailing [of "CHR ''/''" download_path]
  by (simp add: build_url_def Let_def)

text \<open>
  C4 (as the code has it). \<^const>\<open>build_url\<close> removes every trailing slash of the base
  path and every leading slash of the file name, and joins the two remainders with one
  slash: the base path is the left remainder followed by slashes only, the file name is
  slashes only followed by the right remainder, the left remainder does not end with a
  slash and the right one does not start with one. Both worked examples give
  \<^verbatim>\<open>https://example.org/dl/archive-1.0.tar.gz\<close>.
\<close>

theorem build_url_strips_all_and_joins:
  "build_url basePath fileName =
     rstrip_chr CHR ''/'' basePath @ ''/'' @ lstrip_chr CHR ''/'' fileName
   \<and> basePath = rstrip_chr CHR ''/'' basePath
        @ replicate (length basePath - length (rstrip_chr CHR ''/'' basePath)) CHR ''/''
   \<and> fileName = replicate (length fileName - length (lstrip_chr CHR ''/'' fileName)) CHR ''/''
        @ lstrip_chr CHR ''/'' fileName
   \<and> \<not> endswith (rstrip_chr CHR ''/'' basePath) ''/''
   \<and> \<not> startswith (lstrip_chr CHR ''/'' fileName) ''/''
   \<and> build_url ''https://example.org/dl/'' ''/archive-1.0.tar.gz'' = ''https://example.org/dl/archive-1.0.tar.gz''
   \<and> build_url ''https://example.org/dl'' ''archive-1.0.tar.gz'' = ''https://example.org/dl/archive-1.0.tar.gz''"
proof -
  have d: "build_url ''https://example.org/dl/'' ''/archive-1.0.tar.gz'' = ''https://example.org/dl/archive-1.0.tar.gz''"
    by (simp add: build_url_join rstrip_chr_def lstrip_chr_def)
  have e: "build_url ''https://example.org/dl'' ''archive-1.0.tar.gz'' = ''https://example.org/dl/archive-1.0.tar.gz''"
    by (simp add: build_url_join rstrip_chr_def lstrip_chr_def)
  show ?thesis
    using build_url_join [of basePath fileName] rstrip_chr_decompose [of basePath "CHR ''/''"]
      lstrip_chr_decompose [of fileName "CHR ''/''"] rstrip_chr_no_trailing [of "CHR ''/''" basePath]
      lstrip_chr_no_leading [of "CHR ''/''" fileName] d e
    by blast
qed

text \<open>
  C4 as the specification words it fails: with two trailing slashes on the base path,
  stripping one and joining leaves a double slash, and the code returns a single one.
\<close>

theorem build_url_strip_one_counterexample:
  "build_url ''https://example.org/dl//'' ''a.tar.gz'' = ''https://example.org/dl/a.tar.gz''
   \<and> build_url_spec ''https://example.org/dl//'' ''a.tar.gz'' = ''https://example.org/dl//a.tar.gz''
   \<and> build_url ''https://example.org/dl//'' ''a.tar.gz'' \<noteq> build_url_spec ''https://example.org/dl//'' ''a.tar.gz''"
  by (simp add: build_url_join rstrip_chr_def lstrip_chr_def build_url_spec_def
      strip_one_trailing_slash_def strip_one_leading_slash_def endswith_single startswith_single)

section \<open>Properties of the availability checker\<close>

lemma str_int_418: "str_int 418 = ''418''"
  by code_simp

lemma str_int_503: "str_int 503 = ''503''"
  by code_simp

text \<open>
  C5. The classification of a probe: status 200 is reachable with message \<open>Ok\<close>, 404
  is unreachable with \<open>Not Found\<close>, 418 for the package \<open>fontconfig\<close> is reachable,
  every other status \<open>s\<close> is unreachable with message \<open>HTTP s\<close> (so 418 for any other
  package, or for none, gives \<open>HTTP 418\<close>); a timeout, a connection failure and too many
  redirects are unreachable with code 0 and their own messages.
\<close>

theorem check_url_classification:
  "(head url = Response 200 \<longrightarrow> check_url head url p = (True, 200, ''Ok''))
   \<and> (head url = Response 404 \<longrightarrow> check_url head url p = (False, 404, ''Not Found''))
   \<and> (head url = Response 418 \<longrightarrow> fst (check_url head url (Some ''fontconfig'')))
   \<and> (head url = Response s \<and> s \<noteq> 200 \<and> s \<noteq> 404 \<and> (s \<noteq> 418 \<or> p \<noteq> Some ''fontconfig'')
        \<longrightarrow> check_url head url p = (False, s, ''HTTP '' @ str_int s))
   \<and> (head url = Response 418 \<and> p \<noteq> Some ''fontconfig''
        \<longrightarrow> check_url head url p = (False, 418, ''HTTP 418''))
   \<and> (head url = Timeout \<longrightarrow> check_url head url p = (False, 0, ''Timeout''))
   \<and> (head url = ConnectionError \<longrightarrow> check_url head url p = (False, 0, ''Connection Error''))
   \<and> (head url = TooManyRedirects \<longrightarrow> check_url head url p = (False, 0, ''Too Many Redirects''))"
  using str_int_418 by (auto simp add: check_url_def)

theorem check_url_classification_witness:
  "check_url (\<lambda>u. Response 200) ''https://example.org/a'' (Some ''boost'') = (True, 200, ''Ok'')
   \<and> check_url (\<lambda>u. Response 404) ''https://example.org/a'' (Some ''boost'') = (False, 404, ''Not Found'')
   \<and> fst (check_url (\<lambda>u. Response 418) ''https://example.org/a'' (Some ''fontconfig''))
   \<and> check_url (\<lambda>u. Response 503) ''https://example.org/a'' (Some ''fontconfig'') = (False, 503, ''HTTP 503'')
   \<and> check_url (\<lambda>u. Response 418) ''https://example.org/a'' (Some ''boost'') = (False, 418, ''HTTP 418'')
   \<and> check_url (\<lambda>u. Response 418) ''https://example.org/a'' None = (False, 418, ''HTTP 418'')
   \<and> check_url (\<lambda>u. Timeout) ''https://example.org/a'' (Some ''boost'') = (False, 0, ''Timeout'')
   \<and> check_url (\<lambda>u. ConnectionError) ''https://example.org/a'' (Some ''boost'') = (False, 0, ''Connection Error'')
   \<and> check_url (\<lambda>u. TooManyRedirects) ''https://example.org/a'' (Some ''boost'') = (False, 0, ''Too Many Redirects'')"
  using
    check_url_classification [of "\<lambda>u. Response 200" "''https://example.org/a''" "Some ''boost''" 200]
    check_url_classification [of "\<lambda>u. Response 404" "''https://example.org/a''" "Some ''boost''" 404]
    check_url_classification [of "\<lambda>u. Response 418" "''https://example.org/a''" "Some ''boost''" 418]
    check_url_classification [of "\<lambda>u. Response 418" "''https://example.org/a''" "None" 418]
    check_url_classification [of "\<lambda>u. Response 503" "''https://example.org/a''" "Some ''fontconfig''" 503]
    check_url_classification [of "\<lambda>u. Timeout" "''https://example.org/a''" "Some ''boost''" 0]
    check_url_classification [of "\<lambda>u. ConnectionError" "''https://example.org/a''" "Some ''boost''" 0]
    check_url_classification [of "\<lambda>u. TooManyRedirects" "''https://example.org/a''" "Some ''boost''" 0]
    str_int_503 str_int_418
  by simp

section \<open>Properties of same-package resolution\<close>

text \<open>
  C1. The worked example of same-package resolution: for the package \<open>foo\<close> with the
  variables \<open>version = 1.2\<close> and \<open>file_name = foo-$(foo_version).tar.gz\<close>, resolving
  \<open>$(foo_file_name)\<close> gives \<open>foo-1.2.tar.gz\<close>.
\<close>

theorem resolve_variables_worked_example:
  "resolve_variables ''$(foo_file_name)''
     [''version'' \<mapsto> ''1.2'', ''file_name'' \<mapsto> ''foo-$(foo_version).tar.gz''] ''foo''
   = ''foo-1.2.tar.gz''"
  by code_simp

lemma startswith_trans: "startswith s p \<Longrightarrow> startswith p q \<Longrightarrow> startswith s q"
proof -
  assume a: "startswith s p" and b: "startswith p q"
  from b have q: "take (length q) p = q" by (simp add: startswith_def)
  have "length (take (length q) p) = length q" by (simp only: q)
  then have "length q \<le> length p" by simp
  then have "take (length q) s = take (length q) (take (length p) s)"
    by (simp add: min_def)
  also from a have "\<dots> = take (length q) p" by (simp add: startswith_def)
  finally show ?thesis using q by (simp add: startswith_def)
qed

lemma startswith_nonempty: "startswith old ''$('' \<Longrightarrow> old \<noteq> []"
  by (auto simp: startswith_def)

lemma no_marker_py_replace:
  "\<not> contains ''$('' s \<Longrightarrow> startswith old ''$('' \<Longrightarrow> py_replace old new s = s"
proof (induction s)
  case Nil
  then show ?case using startswith_nonempty [of old] by simp
next
  case (Cons c cs)
  from Cons.prems have ne: "old \<noteq> []" using startswith_nonempty by blast
  from Cons.prems have n1: "\<not> startswith (c # cs) ''$(''" and n2: "\<not> contains ''$('' cs"
    by simp_all
  have "\<not> startswith (c # cs) old"
    using n1 startswith_trans [OF _ Cons.prems(2)] by blast
  with ne Cons.IH [OF n2 Cons.prems(2)] show ?case by simp
qed

lemma no_marker_search_nested: "\<not> contains ''$('' s \<Longrightarrow> search_nested s = None"
  by (induction s) (simp_all add: nested_at_def)

lemma no_marker_search_var: "\<not> contains ''$('' s \<Longrightarrow> search_var s = None"
  by (induction s) (simp_all add: var_at_def)

lemma no_marker_resolve_body:
  assumes "\<not> contains ''$('' s"
  shows "resolve_body variables package_name s = (False, s)"
proof -
  have r: "py_replace ''$(package)'' package_name s = s"
    using assms by (rule no_marker_py_replace) (simp add: startswith_def)
  show ?thesis
    by (simp add: resolve_body_def r nested_substitution_def direct_substitution_def
        no_marker_search_nested [OF assms] no_marker_search_var [OF assms])
qed

lemma no_marker_resolve_variables:
  "\<not> contains ''$('' s \<Longrightarrow> resolve_variables s variables package_name = s"
  by (simp add: resolve_variables_def resolve_loop.simps [of _ _ 0] no_marker_resolve_body)

text \<open>
  C8. A string without the placeholder marker \<open>$(\<close> is returned unchanged by
  \<^const>\<open>resolve_variables\<close>, whatever the variables and the package name.
\<close>

theorem resolve_variables_resolved_unchanged:
  "\<not> contains ''$('' s \<Longrightarrow> resolve_variables s variables package_name = s"
  by (rule no_marker_resolve_variables)

theorem resolve_variables_resolved_unchanged_witness:
  "\<not> contains ''$('' ''foo-1.2.tar.gz''
   \<and> resolve_variables ''foo-1.2.tar.gz'' [''version'' \<mapsto> ''1.2''] ''foo'' = ''foo-1.2.tar.gz''"
  using resolve_variables_resolved_unchanged [of "''foo-1.2.tar.gz''" "[''version'' \<mapsto> ''1.2'']" "''foo''"]
  by (simp add: startswith_def)

lemma resolve_loop_iterates:
  "iteration \<le> 20 \<Longrightarrow>
     iteration \<le> resolve_iterations variables package_name iteration result
     \<and> resolve_iterations variables package_name iteration result \<le> 20
     \<and> resolve_loop variables package_name iteration result =
         ((\<lambda>r. snd (resolve_body variables package_name r))
            ^^ (resolve_iterations variables package_name iteration result - iteration)) result"
proof (induction variables package_name iteration result rule: resolve_loop.induct)
  case (1 variables package_name iteration result)
  let ?f = "\<lambda>r. snd (resolve_body variables package_name r)"
  show ?case
  proof (cases "iteration < 20")
    case False
    with "1.prems" have "iteration = 20" by simp
    then show ?thesis
      by (simp add: resolve_loop.simps [of _ _ 20] resolve_iterations.simps [of _ _ 20])
  next
    case True
    obtain changed result' where b: "resolve_body variables package_name result = (changed, result')"
      by (cases "resolve_body variables package_name result")
    then have f: "?f result = result'" by simp
    show ?thesis
    proof (cases changed)
      case False
      with True b f show ?thesis
        by (simp add: resolve_loop.simps [of _ _ iteration] resolve_iterations.simps [of _ _ iteration])
    next
      case c: True
      let ?n = "resolve_iterations variables package_name (iteration + 1) result'"
      from True have le: "iteration + 1 \<le> 20" by simp
      have ih: "iteration + 1 \<le> ?n \<and> ?n \<le> 20
          \<and> resolve_loop variables package_name (iteration + 1) result' = (?f ^^ (?n - (iteration + 1))) result'"
        using "1.IH" [OF True b [symmetric] c le] .
      have e1: "resolve_iterations variables package_name iteration result = ?n"
        using True b c by (simp add: resolve_iterations.simps [of _ _ iteration])
      have e2: "resolve_loop variables package_name iteration result
                 = resolve_loop variables package_name (iteration + 1) result'"
        using True b c by (simp add: resolve_loop.simps [of _ _ iteration])
      from ih have lb: "iteration + 1 \<le> ?n" by blast
      then have "?n - iteration = Suc (?n - (iteration + 1))" by arith
      then have "(?f ^^ (?n - iteration)) result = (?f ^^ Suc (?n - (iteration + 1))) result"
        by (rule arg_cong)
      also have "\<dots> = (?f ^^ (?n - (iteration + 1))) (?f result)"
        by (simp only: funpow_Suc_right o_apply)
      finally have "(?f ^^ (?n - iteration)) result = (?f ^^ (?n - (iteration + 1))) (?f result)" .
      with ih e1 e2 f lb show ?thesis by simp
    qed
  qed
qed

section \<open>Bounded iteration of both resolvers\<close>

lemma cross_loop_iterates:
  "iteration \<le> 10 \<Longrightarrow>
     iteration \<le> cross_iterations package_name all_packages iteration result
     \<and> cross_iterations package_name all_packages iteration result \<le> 10
     \<and> cross_loop package_name all_packages iteration result =
         ((\<lambda>r. fst (cross_body package_name all_packages r))
            ^^ (cross_iterations package_name all_packages iteration result - iteration)) result"
proof (induction package_name all_packages iteration result rule: cross_loop.induct)
  case (1 package_name all_packages iteration result)
  let ?f = "\<lambda>r. fst (cross_body package_name all_packages r)"
  show ?case
  proof (cases "iteration < 10")
    case False
    with "1.prems" have "iteration = 10" by simp
    then show ?thesis
      by (simp add: cross_loop.simps [of _ _ 10] cross_iterations.simps [of _ _ 10])
  next
    case True
    obtain result' changed where b: "cross_body package_name all_packages result = (result', changed)"
      by (cases "cross_body package_name all_packages result")
    then have f: "?f result = result'" by simp
    show ?thesis
    proof (cases changed)
      case False
      with True b f show ?thesis
        by (simp add: cross_loop.simps [of _ _ iteration] cross_iterations.simps [of _ _ iteration])
    next
      case c: True
      let ?n = "cross_iterations package_name all_packages (iteration + 1) result'"
      from True have le: "iteration + 1 \<le> 10" by simp
      have ih: "iteration + 1 \<le> ?n \<and> ?n \<le> 10
          \<and> cross_loop package_name all_packages (iteration + 1) result' = (?f ^^ (?n - (iteration + 1))) result'"
        using "1.IH" [OF True b [symmetric] c le] .
      have e1: "cross_iterations package_name all_packages iteration result = ?n"
        using True b c by (simp add: cross_iterations.simps [of _ _ iteration])
      have e2: "cross_loop package_name all_packages iteration result
                 = cross_loop package_name all_packages (iteration + 1) result'"
        using True b c by (simp add: cross_loop.simps [of _ _ iteration])
      from ih have lb: "iteration + 1 \<le> ?n" by blast
      then have "?n - iteration = Suc (?n - (iteration + 1))" by arith
      then have "(?f ^^ (?n - iteration)) result = (?f ^^ Suc (?n - (iteration + 1))) result"
        by (rule arg_cong)
      also have "\<dots> = (?f ^^ (?n - (iteration + 1))) (?f result)"
        by (simp only: funpow_Suc_right o_apply)
      finally have "(?f ^^ (?n - iteration)) result = (?f ^^ (?n - (iteration + 1))) (?f result)" .
      with ih e1 e2 f lb show ?thesis by simp
    qed
  qed
qed

lemma resolve_cycle_example:
  "resolve_iterations [''a'' \<mapsto> ''x$(foo_a)''] ''foo'' 0 ''$(foo_a)'' = 20
   \<and> resolve_variables ''$(foo_a)'' [''a'' \<mapsto> ''x$(foo_a)''] ''foo'' = ''xxxxxxxxxxxxxxxxxxxx$(foo_a)''"
  by code_simp

lemma cross_cycle_example:
  "cross_iterations ''bar'' [(''foo'', [''a'' \<mapsto> ''y$(baz_a)'']), (''baz'', [''a'' \<mapsto> ''z$(foo_a)''])] 0 ''$(foo_a)'' = 10
   \<and> resolve_cross_package_variables ''$(foo_a)'' ''bar''
        [(''foo'', [''a'' \<mapsto> ''y$(baz_a)'']), (''baz'', [''a'' \<mapsto> ''z$(foo_a)''])] = ''yzyzyzyzyz$(foo_a)''"
  by code_simp

text \<open>
  C9. Both loops are total functions whose recursion is bounded by their counters. The
  body of the loop of \<^const>\<open>resolve_variables\<close> runs at most 20 times and that of
  \<^const>\<open>resolve_cross_package_variables\<close> at most 10 times, and each function returns
  the string its body has produced after that many runs, resolved as far as they went.
  Two cyclic definitions show the bound being reached: the result still holds a
  placeholder and is returned as it stands.
\<close>

theorem resolution_bounded:
  "resolve_iterations variables package_name 0 value \<le> 20
   \<and> resolve_variables value variables package_name =
       ((\<lambda>r. snd (resolve_body variables package_name r))
          ^^ resolve_iterations variables package_name 0 value) value
   \<and> cross_iterations package_name all_packages 0 value \<le> 10
   \<and> resolve_cross_package_variables value package_name all_packages =
       ((\<lambda>r. fst (cross_body package_name all_packages r))
          ^^ cross_iterations package_name all_packages 0 value) value
   \<and> resolve_iterations [''a'' \<mapsto> ''x$(foo_a)''] ''foo'' 0 ''$(foo_a)'' = 20
   \<and> resolve_variables ''$(foo_a)'' [''a'' \<mapsto> ''x$(foo_a)''] ''foo'' = ''xxxxxxxxxxxxxxxxxxxx$(foo_a)''
   \<and> cross_iterations ''bar'' [(''foo'', [''a'' \<mapsto> ''y$(baz_a)'']), (''baz'', [''a'' \<mapsto> ''z$(foo_a)''])] 0 ''$(foo_a)'' = 10
   \<and> resolve_cross_package_variables ''$(foo_a)'' ''bar''
        [(''foo'', [''a'' \<mapsto> ''y$(baz_a)'']), (''baz'', [''a'' \<mapsto> ''z$(foo_a)''])] = ''yzyzyzyzyz$(foo_a)''"
proof -
  have a: "resolve_iterations variables package_name 0 value \<le> 20
    \<and> resolve_variables value variables package_name =
       ((\<lambda>r. snd (resolve_body variables package_name r))
          ^^ resolve_iterations variables package_name 0 value) value"
    using resolve_loop_iterates [of 0 variables package_name "value"]
    by (simp add: resolve_variables_def)
  have b: "cross_iterations package_name all_packages 0 value \<le> 10
    \<and> resolve_cross_package_variables value package_name all_packages =
       ((\<lambda>r. fst (cross_body package_name all_packages r))
          ^^ cross_iterations package_name all_packages 0 value) value"
    using cross_loop_iterates [of 0 package_name all_packages "value"]
    by (simp add: resolve_cross_package_variables_def)
  from a b resolve_cycle_example cross_cycle_example show ?thesis by blast
qed

end
